theory Spec2Isabelle
  imports Complex_Main "HOL-Library.Sublist"
begin

section \<open>JavaScript values used by the adapter\<close>

text \<open>
  A JavaScript string is modelled as a HOL \<open>string\<close>, one list element per code unit, so
  that \<open>length\<close> is the string's \<open>.length\<close>. An optional property (\<open>p?: T\<close>) is a
  \<open>T option\<close>, \<open>None\<close> when it is undefined. A property of a parsed reply can also be
  null; the code reads a reply only through \<open>?.\<close>, \<open>??\<close> and truthiness tests, which take
  null as they take undefined, so \<open>None\<close> stands for both there.
\<close>

text \<open>
  The values of a \<open>Record<string, unknown>\<close> that is plain data: what \<open>JSON.parse\<close>
  can return. An object is the list of its own properties in enumeration order. Numbers
  are the integers that \<open>JSON.stringify\<close> writes in plain decimal digits.
\<close>

datatype json =
    JNull
  | JBool bool
  | JNum int
  | JStr string
  | JArr "json list"
  | JObj "(string \<times> json) list"

text \<open>\<open>Array.prototype.join\<close> on an array of strings.\<close>

fun join :: "string \<Rightarrow> string list \<Rightarrow> string" where
  "join sep [] = []"
| "join sep [x] = x"
| "join sep (x # y # ys) = x @ sep @ join sep (y # ys)"

definition digitChar :: "nat \<Rightarrow> char" where
  "digitChar d = ''0123456789abcdef'' ! (d mod 16)"

text \<open>A non-negative integer in decimal digits, as a template literal writes it.\<close>

fun showNat :: "nat \<Rightarrow> string" where
  "showNat n =
     (if n < 10 then [digitChar n] else showNat (n div 10) @ [digitChar (n mod 10)])"

declare showNat.simps [simp del]

definition showInt :: "int \<Rightarrow> string" where
  "showInt i = (if i < 0 then CHR ''-'' # showNat (nat (- i)) else showNat (nat i))"

text \<open>
  \<open>JSON.stringify\<close> with one argument (no replacer, no indentation), after ECMAScript's
  QuoteJSONString and SerializeJSONProperty: the two-character escapes, \<open>\u00XX\<close> for the
  other control characters, no white space between tokens.
\<close>

definition escapeChar :: "char \<Rightarrow> string" where
  "escapeChar c =
     (if c = CHR 0x08 then [CHR 0x5C, CHR ''b'']
      else if c = CHR 0x09 then [CHR 0x5C, CHR ''t'']
      else if c = CHR 0x0A then [CHR 0x5C, CHR ''n'']
      else if c = CHR 0x0C then [CHR 0x5C, CHR ''f'']
      else if c = CHR 0x0D then [CHR 0x5C, CHR ''r'']
      else if c = CHR 0x22 then [CHR 0x5C, CHR 0x22]
      else if c = CHR 0x5C then [CHR 0x5C, CHR 0x5C]
      else if of_char c < (0x20 :: nat)
        then [CHR 0x5C, CHR ''u'', CHR ''0'', CHR ''0'',
              digitChar (of_char c div 16), digitChar (of_char c mod 16)]
      else [c])"

definition QuoteJSONString :: "string \<Rightarrow> string" where
  "QuoteJSONString s = [CHR 0x22] @ concat (map escapeChar s) @ [CHR 0x22]"

fun JSON_stringify :: "json \<Rightarrow> string"
  and stringify_elements :: "json list \<Rightarrow> string list"
  and stringify_properties :: "(string \<times> json) list \<Rightarrow> string list" where
  "JSON_stringify JNull = ''null''"
| "JSON_stringify (JBool b) = (if b then ''true'' else ''false'')"
| "JSON_stringify (JNum n) = showInt n"
| "JSON_stringify (JStr s) = QuoteJSONString s"
| "JSON_stringify (JArr xs) = ''['' @ join '','' (stringify_elements xs) @ '']''"
| "JSON_stringify (JObj ps) = ''{'' @ join '','' (stringify_properties ps) @ ''}''"
| "stringify_elements [] = []"
| "stringify_elements (x # xs) = JSON_stringify x # stringify_elements xs"
| "stringify_properties [] = []"
| "stringify_properties ((k, v) # ps) =
     (QuoteJSONString k @ '':'' @ JSON_stringify v) # stringify_properties ps"

text \<open>\<open>${v}\<close> in a template literal, for a \<open>v\<close> that is a string or undefined.\<close>

definition interpolate :: "string option \<Rightarrow> string" where
  "interpolate v = (case v of Some s \<Rightarrow> s | None \<Rightarrow> ''undefined'')"

text \<open>\<open>Boolean(s)\<close> for a string: only the empty string is falsy.\<close>

definition Boolean :: "string \<Rightarrow> bool" where
  "Boolean s = (s \<noteq> [])"


section \<open>The generic request and response types (@google/genai)\<close>

text \<open>
  Only the properties that \<open>ollamaContentGenerator.ts\<close> reads or writes are fields; a Part's
  other properties (inline data, file data and so on) are never looked at.
\<close>

record FunctionCall =
  name :: "string option"
  args :: "(string \<times> json) list option"

record FunctionResponse =
  name :: "string option"
  response :: "(string \<times> json) list option"

record Part =
  "text" :: "string option"
  functionCall :: "FunctionCall option"
  functionResponse :: "FunctionResponse option"

record Content =
  role :: "string option"
  parts :: "Part list option"

datatype FinishReason =
    FINISH_REASON_UNSPECIFIED
  | STOP
  | MAX_TOKENS
  | SAFETY
  | RECITATION
  | LANGUAGE
  | OTHER
  | BLOCKLIST
  | PROHIBITED_CONTENT
  | SPII
  | MALFORMED_FUNCTION_CALL

record Candidate =
  content :: Content
  finishReason :: FinishReason

record UsageMetadata =
  promptTokenCount :: "int option"
  candidatesTokenCount :: "int option"
  totalTokenCount :: "int option"

record GenerateContentResponse =
  candidates :: "Candidate list"
  usageMetadata :: "UsageMetadata option"

record CountTokensParameters =
  model :: string
  contents :: "Content list option"

record CountTokensResponse =
  totalTokens :: int


section \<open>The types of ollamaContentGenerator.ts\<close>

record OllamaOptions =
  baseUrl :: string
  model :: string

text \<open>The class's two private fields are the options' two, held in the same record.\<close>

type_synonym OllamaContentGenerator = OllamaOptions

record GenerationConfig =
  temperature :: "real option"
  topP :: "real option"
  maxOutputTokens :: "int option"

text \<open>\<open>systemInstruction?: string | Content\<close>\<close>

datatype SystemInstruction =
    InstructionString string
  | InstructionContent Content

record OllamaRequestConfig =
  generationConfig :: "GenerationConfig option"
  systemInstruction :: "SystemInstruction option"

text \<open>
  \<open>GenerateContentParameters\<close>, with \<open>config\<close> as the code casts it. The request's contents
  are taken in their list-of-Content form.
\<close>

record GenerateContentParameters =
  model :: string
  contents :: "Content list option"
  config :: "OllamaRequestConfig option"

text \<open>The shape \<open>{ content?: string }\<close> of a choice's \<open>message\<close> and \<open>delta\<close>.\<close>

record ChoiceMessage =
  content :: "string option"

record Choice =
  message :: "ChoiceMessage option"
  delta :: "ChoiceMessage option"
  finish_reason :: "string option"

record Usage =
  prompt_tokens :: "int option"
  completion_tokens :: "int option"
  total_tokens :: "int option"

record OllamaResponse =
  choices :: "Choice list option"
  usage :: "Usage option"

text \<open>One element of \<open>messages\<close>, and the object \<open>body\<close> that is sent as JSON.\<close>

record BackendMessage =
  role :: string
  content :: string

record RequestBody =
  model :: string
  messages :: "BackendMessage list"
  stream :: bool
  temperature :: "real option"
  top_p :: "real option"
  max_tokens :: "int option"


section \<open>The network\<close>

text \<open>
  What \<open>fetch\<close> is called with: the URL and the init object. \<open>body\<close> is the object that
  \<open>JSON.stringify\<close> serialises.
\<close>

record HttpRequest =
  url :: string
  http_method :: string
  headers :: "(string \<times> string) list"
  body :: RequestBody

text \<open>
  What the code can throw or reject with: \<open>new Error(message)\<close>, the \<open>TypeError\<close> of a
  \<open>fetch\<close> that did not reach the server, and the \<open>SyntaxError\<close> of \<open>response.json()\<close> on a
  body that is not JSON.
\<close>

datatype error =
    Error string
  | TypeError string
  | SyntaxError string

text \<open>
  A \<open>Response\<close>: its status, what \<open>text()\<close> resolves to, and what \<open>json()\<close> resolves to or
  rejects with (\<open>None\<close> is the JSON value \<open>null\<close>). \<open>ok\<close> is true for the statuses 200 to 299.
\<close>

record HttpResponse =
  status :: nat
  "text" :: string
  json :: "error + OllamaResponse option"

definition ok :: "HttpResponse \<Rightarrow> bool" where
  "ok res = (200 \<le> status res \<and> status res \<le> 299)"


section \<open>Opaque types and helpers from outside the file\<close>

typedecl EmbedContentParameters

typedecl EmbedContentResponse

text \<open>
  Modelled from the spec: \<open>toContents\<close> (code_assist/converter.js) is not among the sources.
  The spec takes the contents of a request to be an ordered list of Content already, each
  of which becomes one backend message, in order; on such a list \<open>toContents\<close> returns the
  list as it is.
\<close>

definition toContents :: "Content list \<Rightarrow> Content list" where
  "toContents cs = cs"


section \<open>class OllamaContentGenerator\<close>

text \<open>\<open>s.replace(/\/$/, '')\<close>: one slash at the very end of the string is removed.\<close>

definition stripTrailingSlash :: "string \<Rightarrow> string" where
  "stripTrailingSlash s = (if s \<noteq> [] \<and> last s = CHR ''/'' then butlast s else s)"

definition new_OllamaContentGenerator :: "OllamaOptions \<Rightarrow> OllamaContentGenerator" where
  "new_OllamaContentGenerator options =
     \<lparr>baseUrl = stripTrailingSlash (baseUrl options),
      OllamaOptions.model = OllamaOptions.model options\<rparr>"

text \<open>The arrow function that \<open>partsToContent\<close> maps over the parts.\<close>

definition partsToContent_part :: "Part \<Rightarrow> string" where
  "partsToContent_part part =
     (case Part.text part of
        Some (c # cs) \<Rightarrow> c # cs
      | _ \<Rightarrow>
         (case functionCall part of
            Some fc \<Rightarrow>
              ''Function call '' @ interpolate (FunctionCall.name fc) @ '': '' @
                JSON_stringify (JObj (case args fc of Some a \<Rightarrow> a | None \<Rightarrow> []))
          | None \<Rightarrow>
             (case functionResponse part of
                Some fr \<Rightarrow>
                  ''Function response '' @ interpolate (FunctionResponse.name fr) @ '': '' @
                    JSON_stringify (JObj (case response fr of Some r \<Rightarrow> r | None \<Rightarrow> []))
              | None \<Rightarrow> [])))"

definition partsToContent :: "Part list \<Rightarrow> string" where
  "partsToContent ps = join [CHR 0x0A] (filter Boolean (map partsToContent_part ps))"

definition toOpenAiMessages :: "Content list \<Rightarrow> BackendMessage list" where
  "toOpenAiMessages cs =
     map (\<lambda>c.
        \<lparr>BackendMessage.role = (if Content.role c = Some ''user'' then ''user'' else ''assistant''),
         BackendMessage.content = partsToContent (case parts c of Some ps \<Rightarrow> ps | None \<Rightarrow> [])\<rparr>)
       cs"

text \<open>\<open>xs?.[0]\<close> on an array that may be absent.\<close>

definition firstElement :: "'a list option \<Rightarrow> 'a option" where
  "firstElement xs = (case xs of Some (x # _) \<Rightarrow> Some x | _ \<Rightarrow> None)"

text \<open>
  \<open>getErrorMessage\<close> (utils/errors.js) is not among the sources: it is a parameter, a
  function from the choice (or undefined) to a string.
\<close>

definition fromOpenAiResponse ::
  "(Choice option \<Rightarrow> string) \<Rightarrow> OllamaResponse option \<Rightarrow> GenerateContentResponse" where
  "fromOpenAiResponse getErrorMessage dat =
     (let choice = firstElement (Option.bind dat choices);
          txt =
            (case Option.bind (Option.bind choice message) ChoiceMessage.content of
               Some t \<Rightarrow> t
             | None \<Rightarrow>
                (case Option.bind (Option.bind choice delta) ChoiceMessage.content of
                   Some t \<Rightarrow> t
                 | None \<Rightarrow> getErrorMessage choice));
          reason =
            (if Option.bind choice finish_reason = Some ''length'' then MAX_TOKENS else STOP)
      in \<lparr>candidates =
            [\<lparr>Candidate.content =
                 \<lparr>Content.role = Some ''model'',
                  parts = Some [\<lparr>Part.text = Some txt, functionCall = None,
                                 functionResponse = None\<rparr>]\<rparr>,
               finishReason = reason\<rparr>],
          usageMetadata =
            (case Option.bind dat usage of
               Some u \<Rightarrow>
                 Some \<lparr>promptTokenCount = prompt_tokens u,
                       candidatesTokenCount = completion_tokens u,
                       totalTokenCount = total_tokens u\<rparr>
             | None \<Rightarrow> None)\<rparr>)"

text \<open>The constant \<open>messages\<close> of \<open>generateContent\<close>.\<close>

definition generateContent_messages :: "GenerateContentParameters \<Rightarrow> BackendMessage list" where
  "generateContent_messages request =
     (let cs = toContents
                 (case GenerateContentParameters.contents request of
                    Some l \<Rightarrow> l | None \<Rightarrow> []);
          instruction = Option.bind (config request) systemInstruction
      in (case instruction of
            Some (InstructionString s) \<Rightarrow>
              if s \<noteq> []
              then [\<lparr>BackendMessage.role = ''system'', BackendMessage.content = s\<rparr>]
              else []
          | Some (InstructionContent c) \<Rightarrow>
              [\<lparr>BackendMessage.role = ''system'',
                BackendMessage.content =
                  partsToContent (case parts c of Some ps \<Rightarrow> ps | None \<Rightarrow> [])\<rparr>]
          | None \<Rightarrow> [])
         @ toOpenAiMessages cs)"

text \<open>The constant \<open>body\<close> and the call of \<open>fetch\<close> it is sent with.\<close>

definition generateContent_body ::
  "OllamaContentGenerator \<Rightarrow> GenerateContentParameters \<Rightarrow> RequestBody" where
  "generateContent_body self request =
     (let genConfig = Option.bind (config request) generationConfig
      in \<lparr>RequestBody.model =
            (if GenerateContentParameters.model request \<noteq> []
             then GenerateContentParameters.model request
             else OllamaOptions.model self),
          messages = generateContent_messages request,
          stream = False,
          RequestBody.temperature = Option.bind genConfig GenerationConfig.temperature,
          top_p = Option.bind genConfig topP,
          max_tokens = Option.bind genConfig maxOutputTokens\<rparr>)"

definition generateContent_request ::
  "OllamaContentGenerator \<Rightarrow> GenerateContentParameters \<Rightarrow> HttpRequest" where
  "generateContent_request self request =
     \<lparr>url = baseUrl self @ ''/chat/completions'',
      http_method = ''POST'',
      headers = [(''Content-Type'', ''application/json'')],
      body = generateContent_body self request\<rparr>"

text \<open>
  The methods take the network's answer to a request (\<open>fetch\<close>) and the list of requests
  sent so far, and return their result, or the error they reject with, and the list of
  requests sent by then.
\<close>

definition generateContent ::
  "(HttpRequest \<Rightarrow> error + HttpResponse) \<Rightarrow> (Choice option \<Rightarrow> string) \<Rightarrow>
   OllamaContentGenerator \<Rightarrow> GenerateContentParameters \<Rightarrow> string \<Rightarrow> HttpRequest list \<Rightarrow>
   (error + GenerateContentResponse) \<times> HttpRequest list" where
  "generateContent fetch getErrorMessage self request userPromptId sent =
     (let req = generateContent_request self request;
          sent' = sent @ [req]
      in case fetch req of
           Inl e \<Rightarrow> (Inl e, sent')
         | Inr res \<Rightarrow>
             if \<not> ok res
             then (Inl (Error (''Ollama request failed ('' @ showNat (status res) @ ''): '' @
                                HttpResponse.text res)),
                   sent')
             else (case json res of
                     Inl e \<Rightarrow> (Inl e, sent')
                   | Inr dat \<Rightarrow> (Inr (fromOpenAiResponse getErrorMessage dat), sent')))"

text \<open>The stream is the list of the chunks it yields: the one response.\<close>

definition generateContentStream ::
  "(HttpRequest \<Rightarrow> error + HttpResponse) \<Rightarrow> (Choice option \<Rightarrow> string) \<Rightarrow>
   OllamaContentGenerator \<Rightarrow> GenerateContentParameters \<Rightarrow> string \<Rightarrow> HttpRequest list \<Rightarrow>
   (error + GenerateContentResponse list) \<times> HttpRequest list" where
  "generateContentStream fetch getErrorMessage self request userPromptId sent =
     (case generateContent fetch getErrorMessage self request userPromptId sent of
        (Inl e, sent') \<Rightarrow> (Inl e, sent')
      | (Inr resp, sent') \<Rightarrow> (Inr [resp], sent'))"

text \<open>
  \<open>partListUnionToString\<close> (geminiRequest.js) is not among the sources: \<open>countTokens\<close>
  takes the flattening it calls as a parameter, a function from the parts to a string.
  \<open>text.length / 4\<close> is exact in floating point (a division by a power of two), so the
  real quotient and its ceiling are what \<open>Math.ceil\<close> returns.
\<close>

definition countTokens ::
  "(Part list \<Rightarrow> string) \<Rightarrow> CountTokensParameters \<Rightarrow> CountTokensResponse" where
  "countTokens partListUnionToString request =
     (let cs = toContents
                 (case CountTokensParameters.contents request of
                    Some l \<Rightarrow> l | None \<Rightarrow> []);
          allParts = concat (map (\<lambda>c. case parts c of Some ps \<Rightarrow> ps | None \<Rightarrow> []) cs);
          txt = partListUnionToString allParts;
          estimatedTokens = max 1 \<lceil>real (length txt) / 4\<rceil>
      in \<lparr>totalTokens = estimatedTokens\<rparr>)"

definition embedContent ::
  "EmbedContentParameters \<Rightarrow> HttpRequest list \<Rightarrow>
   (error + EmbedContentResponse) \<times> HttpRequest list" where
  "embedContent request sent =
     (Inl (Error ''Embedding is not supported for Ollama backends yet.''), sent)"


section \<open>Lemmas on the helpers\<close>

lemma Boolean_iff [simp]: "Boolean s = (s \<noteq> [])"
  by (simp add: Boolean_def)

lemma join_nonempty: "\<forall>s\<in>set xs. s \<noteq> [] \<Longrightarrow> (join sep xs = []) = (xs = [])"
  by (induction sep xs rule: join.induct) auto


lemma sublist_mid: "sublist xs (ps @ xs @ ss)"
  unfolding sublist_def by blast

lemma partsToContent_single: "partsToContent [p] = partsToContent_part p"
  by (simp add: partsToContent_def)

lemma partsToContent_empty_iff:
  "(partsToContent ps = []) = (\<forall>p\<in>set ps. partsToContent_part p = [])"
proof -
  have "(partsToContent ps = []) = (filter Boolean (map partsToContent_part ps) = [])"
    unfolding partsToContent_def by (rule join_nonempty) simp
  then show ?thesis by (simp add: filter_empty_conv)
qed

lemma toOpenAiMessages_length: "length (toOpenAiMessages cs) = length cs"
  by (simp add: toOpenAiMessages_def)

lemma request_messages:
  "messages (body (generateContent_request self request)) = generateContent_messages request"
  by (simp add: generateContent_request_def generateContent_body_def Let_def)

lemma generateContent_sent:
  "snd (generateContent fetch gem self request uid sent) =
     sent @ [generateContent_request self request]"
  by (simp add: generateContent_def Let_def split: sum.splits)

lemma ceiling_quarter: "\<lceil>real n / 4\<rceil> = int ((n + 3) div 4)"
proof -
  have "real n / 4 = of_int (int n) / of_int 4" by simp
  then have "\<lceil>real n / 4\<rceil> = - (- int n div 4)"
    by (simp only: ceiling_divide_eq_div)
  also have "\<dots> = int ((n + 3) div 4)"
    by (simp add: zdiv_int)
  finally show ?thesis .
qed

lemma countTokens_total:
  "totalTokens (countTokens partListUnionToString request) =
     max 1 \<lceil>real (length (partListUnionToString
        (concat (map (\<lambda>c. case parts c of Some ps \<Rightarrow> ps | None \<Rightarrow> [])
           (toContents
              (case CountTokensParameters.contents request of
                 Some l \<Rightarrow> l | None \<Rightarrow> [])))))) / 4\<rceil>"
  by (simp add: countTokens_def Let_def)

lemma generateContent_messages_eq:
  "generateContent_messages request =
     (case Option.bind (config request) systemInstruction of
        Some (InstructionString s) \<Rightarrow>
          if s \<noteq> []
          then [\<lparr>BackendMessage.role = ''system'', BackendMessage.content = s\<rparr>]
          else []
      | Some (InstructionContent c) \<Rightarrow>
          [\<lparr>BackendMessage.role = ''system'',
            BackendMessage.content =
              partsToContent (case parts c of Some ps \<Rightarrow> ps | None \<Rightarrow> [])\<rparr>]
      | None \<Rightarrow> [])
     @ toOpenAiMessages
         (case GenerateContentParameters.contents request of Some l \<Rightarrow> l | None \<Rightarrow> [])"
  by (simp add: generateContent_messages_def toContents_def Let_def)

lemma toOpenAiMessages_nth:
  "i < length cs \<Longrightarrow>
   toOpenAiMessages cs ! i =
     \<lparr>BackendMessage.role = (if Content.role (cs ! i) = Some ''user'' then ''user'' else ''assistant''),
      BackendMessage.content =
        partsToContent (case parts (cs ! i) of Some ps \<Rightarrow> ps | None \<Rightarrow> [])\<rparr>"
  by (simp add: toOpenAiMessages_def)


section \<open>The Part Renderer\<close>


text \<open>
  Claim C10. The fields of a Part are read in a fixed order. A non-empty text is the
  result whatever the two other fields hold; without text, a function call is rendered
  whatever the function response holds; and a text that is the empty string counts as
  no text: replacing it by an absent text changes nothing in any list of parts, so that
  such a part is rendered by its function call or, failing that, its function response.
\<close>

theorem partsToContent_field_precedence:
  "partsToContent
     [\<lparr>Part.text = Some (c # cs), functionCall = fc, functionResponse = fr\<rparr>] = c # cs
   \<and> partsToContent
        [\<lparr>Part.text = None, functionCall = Some call, functionResponse = fr\<rparr>]
       = ''Function call '' @ interpolate (FunctionCall.name call) @ '': '' @
           JSON_stringify (JObj (case args call of Some a \<Rightarrow> a | None \<Rightarrow> []))
   \<and> partsToContent (map (\<lambda>p. if Part.text p = Some [] then p\<lparr>Part.text := None\<rparr> else p) ps)
       = partsToContent ps
   \<and> partsToContent
        [\<lparr>Part.text = Some [], functionCall = Some call, functionResponse = fr\<rparr>]
       = partsToContent
        [\<lparr>Part.text = None, functionCall = Some call, functionResponse = fr\<rparr>]
   \<and> partsToContent
        [\<lparr>Part.text = Some [], functionCall = None, functionResponse = Some resp\<rparr>]
       = ''Function response '' @ interpolate (FunctionResponse.name resp) @ '': '' @
           JSON_stringify (JObj (case response resp of Some r \<Rightarrow> r | None \<Rightarrow> []))"
proof -
  have e: "partsToContent_part (if Part.text p = Some [] then p\<lparr>Part.text := None\<rparr> else p)
      = partsToContent_part p" for p
    by (simp add: partsToContent_part_def split: option.splits)
  have m: "partsToContent (map (\<lambda>p. if Part.text p = Some [] then p\<lparr>Part.text := None\<rparr> else p) ps)
      = partsToContent ps"
    unfolding partsToContent_def map_map comp_def e ..
  show ?thesis
    using m by (simp add: partsToContent_single partsToContent_part_def)
qed


section \<open>The Message Translator\<close>

text \<open>
  Claim C1, as the code has it. \<open>generateContent\<close> sends one request. Its list of messages
  has one message for each Content of the request, plus one when the system instruction
  is a Content or a string that is not empty; with no instruction, or with the empty
  string as the instruction, it has exactly as many messages as there are Contents. No
  Content is left out: the last messages carry, in order, the rendered parts of the
  Contents, and that is the empty string for a Content none of whose parts renders.
\<close>

theorem generateContent_message_count:
  "cs = (case GenerateContentParameters.contents request of Some l \<Rightarrow> l | None \<Rightarrow> []) \<Longrightarrow>
   msgs = messages (body (generateContent_request self request)) \<Longrightarrow>
   snd (generateContent fetch getErrorMessage self request userPromptId sent) =
     sent @ [generateContent_request self request]
   \<and> length msgs =
       length cs +
       (case Option.bind (config request) systemInstruction of
          None \<Rightarrow> 0
        | Some (InstructionString s) \<Rightarrow> if s = [] then 0 else 1
        | Some (InstructionContent c) \<Rightarrow> 1)
   \<and> map BackendMessage.content (drop (length msgs - length cs) msgs) =
       map (\<lambda>c. partsToContent (case parts c of Some ps \<Rightarrow> ps | None \<Rightarrow> [])) cs
   \<and> ((\<forall>p\<in>set ps. partsToContent [p] = []) \<longrightarrow> partsToContent ps = [])"
proof -
  assume c: "cs = (case GenerateContentParameters.contents request of Some l \<Rightarrow> l | None \<Rightarrow> [])"
    and m: "msgs = messages (body (generateContent_request self request))"
  obtain sys where s: "msgs = sys @ toOpenAiMessages cs"
    and l: "length sys =
       (case Option.bind (config request) systemInstruction of
          None \<Rightarrow> 0
        | Some (InstructionString s) \<Rightarrow> if s = [] then 0 else 1
        | Some (InstructionContent c) \<Rightarrow> 1)"
    unfolding m c request_messages generateContent_messages_eq
    by (auto split: option.splits SystemInstruction.splits)
  have n: "length msgs = length cs + length sys"
    by (simp add: s toOpenAiMessages_length)
  have d: "drop (length msgs - length cs) msgs = toOpenAiMessages cs"
    by (simp add: s toOpenAiMessages_length)
  have e: "map BackendMessage.content (toOpenAiMessages cs) =
       map (\<lambda>c. partsToContent (case parts c of Some ps \<Rightarrow> ps | None \<Rightarrow> [])) cs"
    by (simp add: toOpenAiMessages_def comp_def)
  show ?thesis
    using n l d e
    by (simp add: generateContent_sent partsToContent_empty_iff partsToContent_single)
qed

text \<open>
  Two Contents after the instruction \<open>Be concise\<close>, the first with one part of empty text,
  the second with no parts: three messages, the last two with empty content.
\<close>

theorem generateContent_message_count_witness:
  "partsToContent [\<lparr>Part.text = Some '''', functionCall = None, functionResponse = None\<rparr>] = []
   \<and> length (messages (body (generateContent_request
       \<lparr>baseUrl = ''http://localhost:11434/v1'', OllamaOptions.model = ''llama3''\<rparr>
       \<lparr>GenerateContentParameters.model = '''',
        GenerateContentParameters.contents = Some [\<lparr>Content.role = Some ''user'', parts = Some [\<lparr>Part.text = Some '''', functionCall = None, functionResponse = None\<rparr>]\<rparr>,
          \<lparr>Content.role = Some ''model'', parts = None\<rparr>],
        config = Some \<lparr>generationConfig = None, systemInstruction = Some (InstructionString ''Be concise'')\<rparr>\<rparr>))) = 3
   \<and> map BackendMessage.content (messages (body (generateContent_request
       \<lparr>baseUrl = ''http://localhost:11434/v1'', OllamaOptions.model = ''llama3''\<rparr>
       \<lparr>GenerateContentParameters.model = '''',
        GenerateContentParameters.contents = Some [\<lparr>Content.role = Some ''user'', parts = Some [\<lparr>Part.text = Some '''', functionCall = None, functionResponse = None\<rparr>]\<rparr>,
          \<lparr>Content.role = Some ''model'', parts = None\<rparr>],
        config = Some \<lparr>generationConfig = None, systemInstruction = Some (InstructionString ''Be concise'')\<rparr>\<rparr>))) = [''Be concise'', [], []]"
  using generateContent_message_count
    [where request = "\<lparr>GenerateContentParameters.model = '''',
        GenerateContentParameters.contents = Some [\<lparr>Content.role = Some ''user'', parts = Some [\<lparr>Part.text = Some '''', functionCall = None, functionResponse = None\<rparr>]\<rparr>,
          \<lparr>Content.role = Some ''model'', parts = None\<rparr>],
        config = Some \<lparr>generationConfig = None, systemInstruction = Some (InstructionString ''Be concise'')\<rparr>\<rparr>"
       and self = "\<lparr>baseUrl = ''http://localhost:11434/v1'', OllamaOptions.model = ''llama3''\<rparr>"
       and ps = "[\<lparr>Part.text = Some '''', functionCall = None, functionResponse = None\<rparr>]"
       and sent = "[]", OF refl refl]
  by (simp add: generateContent_request_def generateContent_body_def
      generateContent_messages_def toContents_def toOpenAiMessages_def
      partsToContent_def partsToContent_part_def)

text \<open>
  Claim C1 as it is stated fails when the system instruction is the empty string: the
  instruction is present, and the two Contents give two messages, not three.
\<close>

theorem generateContent_message_count_counterexample:
  "Option.bind (config
       \<lparr>GenerateContentParameters.model = '''',
        GenerateContentParameters.contents = Some [\<lparr>Content.role = Some ''user'', parts = Some [\<lparr>Part.text = Some ''hi'', functionCall = None, functionResponse = None\<rparr>]\<rparr>,
          \<lparr>Content.role = Some ''model'', parts = Some [\<lparr>Part.text = Some ''hello'', functionCall = None, functionResponse = None\<rparr>]\<rparr>],
        config = Some \<lparr>generationConfig = None, systemInstruction = Some (InstructionString '''')\<rparr>\<rparr>) systemInstruction = Some (InstructionString '''')
   \<and> length (messages (body (generateContent_request
       \<lparr>baseUrl = ''http://localhost:11434/v1'', OllamaOptions.model = ''llama3''\<rparr>
       \<lparr>GenerateContentParameters.model = '''',
        GenerateContentParameters.contents = Some [\<lparr>Content.role = Some ''user'', parts = Some [\<lparr>Part.text = Some ''hi'', functionCall = None, functionResponse = None\<rparr>]\<rparr>,
          \<lparr>Content.role = Some ''model'', parts = Some [\<lparr>Part.text = Some ''hello'', functionCall = None, functionResponse = None\<rparr>]\<rparr>],
        config = Some \<lparr>generationConfig = None, systemInstruction = Some (InstructionString '''')\<rparr>\<rparr>))) = 2
   \<and> length (messages (body (generateContent_request
       \<lparr>baseUrl = ''http://localhost:11434/v1'', OllamaOptions.model = ''llama3''\<rparr>
       \<lparr>GenerateContentParameters.model = '''',
        GenerateContentParameters.contents = Some [\<lparr>Content.role = Some ''user'', parts = Some [\<lparr>Part.text = Some ''hi'', functionCall = None, functionResponse = None\<rparr>]\<rparr>,
          \<lparr>Content.role = Some ''model'', parts = Some [\<lparr>Part.text = Some ''hello'', functionCall = None, functionResponse = None\<rparr>]\<rparr>],
        config = Some \<lparr>generationConfig = None, systemInstruction = Some (InstructionString '''')\<rparr>\<rparr>))) \<noteq> 2 + 1"
  by (simp add: generateContent_request_def generateContent_body_def
      generateContent_messages_def toContents_def toOpenAiMessages_def)

text \<open>
  Claim C5, as the code has it. When the system instruction is a string that is not empty,
  the first message has the role \<open>system\<close> and that string as content; when it is a Content,
  the first message has the role \<open>system\<close> and the rendering of its parts as content. The
  messages of the Contents follow, one for each Content in order, with the role \<open>user\<close>
  when the Content's role is the string \<open>user\<close> and \<open>assistant\<close> otherwise.
\<close>

theorem generateContent_message_order:
  "cs = (case GenerateContentParameters.contents request of Some l \<Rightarrow> l | None \<Rightarrow> []) \<Longrightarrow>
   msgs = messages (body (generateContent_request self request)) \<Longrightarrow>
   (\<forall>s. Option.bind (config request) systemInstruction = Some (InstructionString s) \<and> s \<noteq> []
      \<longrightarrow> msgs = \<lparr>BackendMessage.role = ''system'', BackendMessage.content = s\<rparr>
                   # toOpenAiMessages cs)
   \<and> (\<forall>c. Option.bind (config request) systemInstruction = Some (InstructionContent c)
      \<longrightarrow> msgs = \<lparr>BackendMessage.role = ''system'',
                    BackendMessage.content =
                      partsToContent (case parts c of Some ps \<Rightarrow> ps | None \<Rightarrow> [])\<rparr>
                   # toOpenAiMessages cs)
   \<and> length (toOpenAiMessages cs) = length cs
   \<and> (\<forall>i<length cs.
         toOpenAiMessages cs ! i =
           \<lparr>BackendMessage.role =
              (if Content.role (cs ! i) = Some ''user'' then ''user'' else ''assistant''),
            BackendMessage.content =
              partsToContent (case parts (cs ! i) of Some ps \<Rightarrow> ps | None \<Rightarrow> [])\<rparr>)"
  by (simp add: request_messages generateContent_messages_eq toOpenAiMessages_length
      toOpenAiMessages_nth)

text \<open>
  The instruction \<open>Be concise\<close> before a user and a model turn, and an instruction given
  as a Content of two text parts before a turn of another role.
\<close>

theorem generateContent_message_order_witness:
  "messages (body (generateContent_request
       \<lparr>baseUrl = ''http://localhost:11434/v1'', OllamaOptions.model = ''llama3''\<rparr>
       \<lparr>GenerateContentParameters.model = '''',
        GenerateContentParameters.contents = Some [\<lparr>Content.role = Some ''user'', parts = Some [\<lparr>Part.text = Some ''hi'', functionCall = None, functionResponse = None\<rparr>]\<rparr>,
          \<lparr>Content.role = Some ''model'', parts = Some [\<lparr>Part.text = Some ''hello'', functionCall = None, functionResponse = None\<rparr>]\<rparr>],
        config = Some \<lparr>generationConfig = None, systemInstruction = Some (InstructionString ''Be concise'')\<rparr>\<rparr>)) =
     [\<lparr>BackendMessage.role = ''system'', BackendMessage.content = ''Be concise''\<rparr>,
      \<lparr>BackendMessage.role = ''user'', BackendMessage.content = ''hi''\<rparr>,
      \<lparr>BackendMessage.role = ''assistant'', BackendMessage.content = ''hello''\<rparr>]
   \<and> messages (body (generateContent_request
       \<lparr>baseUrl = ''http://localhost:11434/v1'', OllamaOptions.model = ''llama3''\<rparr>
       \<lparr>GenerateContentParameters.model = '''',
        GenerateContentParameters.contents = Some [\<lparr>Content.role = Some ''tool'', parts = Some [\<lparr>Part.text = Some ''42'', functionCall = None, functionResponse = None\<rparr>]\<rparr>],
        config = Some \<lparr>generationConfig = None, systemInstruction = Some (InstructionContent
          \<lparr>Content.role = Some ''system'', parts = Some [\<lparr>Part.text = Some ''Be concise'', functionCall = None, functionResponse = None\<rparr>,
            \<lparr>Part.text = Some ''Be kind'', functionCall = None, functionResponse = None\<rparr>]\<rparr>)\<rparr>\<rparr>)) =
     [\<lparr>BackendMessage.role = ''system'',
       BackendMessage.content = ''Be concise'' @ [CHR 0x0A] @ ''Be kind''\<rparr>,
      \<lparr>BackendMessage.role = ''assistant'', BackendMessage.content = ''42''\<rparr>]"
  using generateContent_message_order
    [where request = "\<lparr>GenerateContentParameters.model = '''',
        GenerateContentParameters.contents = Some [\<lparr>Content.role = Some ''user'', parts = Some [\<lparr>Part.text = Some ''hi'', functionCall = None, functionResponse = None\<rparr>]\<rparr>,
          \<lparr>Content.role = Some ''model'', parts = Some [\<lparr>Part.text = Some ''hello'', functionCall = None, functionResponse = None\<rparr>]\<rparr>],
        config = Some \<lparr>generationConfig = None, systemInstruction = Some (InstructionString ''Be concise'')\<rparr>\<rparr>"
       and self = "\<lparr>baseUrl = ''http://localhost:11434/v1'', OllamaOptions.model = ''llama3''\<rparr>", OF refl refl]
    generateContent_message_order
    [where request = "\<lparr>GenerateContentParameters.model = '''',
        GenerateContentParameters.contents = Some [\<lparr>Content.role = Some ''tool'', parts = Some [\<lparr>Part.text = Some ''42'', functionCall = None, functionResponse = None\<rparr>]\<rparr>],
        config = Some \<lparr>generationConfig = None, systemInstruction = Some (InstructionContent
          \<lparr>Content.role = Some ''system'', parts = Some [\<lparr>Part.text = Some ''Be concise'', functionCall = None, functionResponse = None\<rparr>,
            \<lparr>Part.text = Some ''Be kind'', functionCall = None, functionResponse = None\<rparr>]\<rparr>)\<rparr>\<rparr>"
       and self = "\<lparr>baseUrl = ''http://localhost:11434/v1'', OllamaOptions.model = ''llama3''\<rparr>", OF refl refl]
  by (simp add: toOpenAiMessages_def partsToContent_def partsToContent_part_def)

text \<open>
  Claim C5 as it is stated fails when the system instruction is the empty string: the
  instruction is present, and the only message is the user's.
\<close>

theorem generateContent_message_order_counterexample:
  "Option.bind (config
       \<lparr>GenerateContentParameters.model = '''',
        GenerateContentParameters.contents = Some [\<lparr>Content.role = Some ''user'', parts = Some [\<lparr>Part.text = Some ''hi'', functionCall = None, functionResponse = None\<rparr>]\<rparr>],
        config = Some \<lparr>generationConfig = None, systemInstruction = Some (InstructionString '''')\<rparr>\<rparr>) systemInstruction \<noteq> None
   \<and> messages (body (generateContent_request
       \<lparr>baseUrl = ''http://localhost:11434/v1'', OllamaOptions.model = ''llama3''\<rparr>
       \<lparr>GenerateContentParameters.model = '''',
        GenerateContentParameters.contents = Some [\<lparr>Content.role = Some ''user'', parts = Some [\<lparr>Part.text = Some ''hi'', functionCall = None, functionResponse = None\<rparr>]\<rparr>],
        config = Some \<lparr>generationConfig = None, systemInstruction = Some (InstructionString '''')\<rparr>\<rparr>)) =
     [\<lparr>BackendMessage.role = ''user'', BackendMessage.content = ''hi''\<rparr>]"
  by (simp add: generateContent_request_def generateContent_body_def
      generateContent_messages_def toContents_def toOpenAiMessages_def
      partsToContent_def partsToContent_part_def)


section \<open>The Response Translator\<close>



text \<open>
  Claim C4. The finish reason of the candidate is \<open>MAX_TOKENS\<close> exactly when there is a
  first choice whose \<open>finish_reason\<close> is the string \<open>length\<close>; in every other case (another
  string, no \<open>finish_reason\<close>, no choice, no data) it is \<open>STOP\<close>.
\<close>

theorem fromOpenAiResponse_finishReason:
  "(map finishReason (candidates (fromOpenAiResponse getErrorMessage dat)) = [MAX_TOKENS])
     = (\<exists>d c rest. dat = Some d \<and> choices d = Some (c # rest)
          \<and> finish_reason c = Some ''length'')
   \<and> (map finishReason (candidates (fromOpenAiResponse getErrorMessage dat)) = [STOP])
     = (\<not> (\<exists>d c rest. dat = Some d \<and> choices d = Some (c # rest)
          \<and> finish_reason c = Some ''length''))"
  by (auto simp: fromOpenAiResponse_def firstElement_def Let_def
      split: option.splits list.splits Option.bind_splits)


section \<open>The Token Estimator\<close>

text \<open>
  Claim C6. With \<open>L\<close> the length of the flattened text of the request's parts, the total
  that \<open>countTokens\<close> returns is \<open>max 1 \<lceil>L / 4\<rceil>\<close>, which is \<open>max 1 ((L + 3) div 4)\<close>; it
  is at least 1; it is 1 for \<open>L = 0\<close> and \<open>L = 4\<close>, 2 for \<open>L = 5\<close> and 10 for \<open>L = 40\<close>.
  This holds whatever function flattens the parts.
\<close>

theorem countTokens_estimate:
  "L = length (partListUnionToString
        (concat (map (\<lambda>c. case parts c of Some ps \<Rightarrow> ps | None \<Rightarrow> [])
           (toContents
              (case CountTokensParameters.contents request of
                 Some l \<Rightarrow> l | None \<Rightarrow> []))))) \<Longrightarrow>
   totalTokens (countTokens partListUnionToString request) = max 1 \<lceil>real L / 4\<rceil>
   \<and> totalTokens (countTokens partListUnionToString request) = max 1 (int ((L + 3) div 4))
   \<and> 1 \<le> totalTokens (countTokens partListUnionToString request)
   \<and> (L = 0 \<longrightarrow> totalTokens (countTokens partListUnionToString request) = 1)
   \<and> (L = 4 \<longrightarrow> totalTokens (countTokens partListUnionToString request) = 1)
   \<and> (L = 5 \<longrightarrow> totalTokens (countTokens partListUnionToString request) = 2)
   \<and> (L = 40 \<longrightarrow> totalTokens (countTokens partListUnionToString request) = 10)"
proof -
  assume "L = length (partListUnionToString
        (concat (map (\<lambda>c. case parts c of Some ps \<Rightarrow> ps | None \<Rightarrow> [])
           (toContents
              (case CountTokensParameters.contents request of
                 Some l \<Rightarrow> l | None \<Rightarrow> [])))))"
  then have t: "totalTokens (countTokens partListUnionToString request) = max 1 \<lceil>real L / 4\<rceil>"
    by (simp only: countTokens_total)
  then have i: "totalTokens (countTokens partListUnionToString request) = max 1 (int ((L + 3) div 4))"
    by (simp only: ceiling_quarter)
  show ?thesis
    using t i by auto
qed

text \<open>The estimate at texts of 0, 4, 5 and 40 characters, flattened by \<open>partsToContent\<close>.\<close>

theorem countTokens_estimate_witness:
  "length (partsToContent
      [\<lparr>Part.text = Some '''', functionCall = None, functionResponse = None\<rparr>]) = 0
   \<and> totalTokens (countTokens partsToContent
        \<lparr>CountTokensParameters.model = ''llama3'',
         CountTokensParameters.contents = Some [\<lparr>Content.role = Some ''user'', parts = Some
           [\<lparr>Part.text = Some '''', functionCall = None, functionResponse = None\<rparr>]\<rparr>]\<rparr>) = 1
   \<and> length (partsToContent
      [\<lparr>Part.text = Some ''abcd'', functionCall = None, functionResponse = None\<rparr>]) = 4
   \<and> totalTokens (countTokens partsToContent
        \<lparr>CountTokensParameters.model = ''llama3'',
         CountTokensParameters.contents = Some [\<lparr>Content.role = Some ''user'', parts = Some
           [\<lparr>Part.text = Some ''abcd'', functionCall = None, functionResponse = None\<rparr>]\<rparr>]\<rparr>) = 1
   \<and> length (partsToContent
      [\<lparr>Part.text = Some ''abcde'', functionCall = None, functionResponse = None\<rparr>]) = 5
   \<and> totalTokens (countTokens partsToContent
        \<lparr>CountTokensParameters.model = ''llama3'',
         CountTokensParameters.contents = Some [\<lparr>Content.role = Some ''user'', parts = Some
           [\<lparr>Part.text = Some ''abcde'', functionCall = None, functionResponse = None\<rparr>]\<rparr>]\<rparr>) = 2
   \<and> length (partsToContent
      [\<lparr>Part.text = Some ''0123456789012345678901234567890123456789'',
        functionCall = None, functionResponse = None\<rparr>]) = 40
   \<and> totalTokens (countTokens partsToContent
        \<lparr>CountTokensParameters.model = ''llama3'',
         CountTokensParameters.contents = Some [\<lparr>Content.role = Some ''user'', parts = Some
           [\<lparr>Part.text = Some ''0123456789012345678901234567890123456789'',
             functionCall = None, functionResponse = None\<rparr>]\<rparr>]\<rparr>) = 10"
  using
    countTokens_estimate [of _ partsToContent
      "\<lparr>CountTokensParameters.model = ''llama3'',
         CountTokensParameters.contents = Some [\<lparr>Content.role = Some ''user'', parts = Some
           [\<lparr>Part.text = Some '''', functionCall = None, functionResponse = None\<rparr>]\<rparr>]\<rparr>", OF refl]
    countTokens_estimate [of _ partsToContent
      "\<lparr>CountTokensParameters.model = ''llama3'',
         CountTokensParameters.contents = Some [\<lparr>Content.role = Some ''user'', parts = Some
           [\<lparr>Part.text = Some ''abcd'', functionCall = None, functionResponse = None\<rparr>]\<rparr>]\<rparr>", OF refl]
    countTokens_estimate [of _ partsToContent
      "\<lparr>CountTokensParameters.model = ''llama3'',
         CountTokensParameters.contents = Some [\<lparr>Content.role = Some ''user'', parts = Some
           [\<lparr>Part.text = Some ''abcde'', functionCall = None, functionResponse = None\<rparr>]\<rparr>]\<rparr>", OF refl]
    countTokens_estimate [of _ partsToContent
      "\<lparr>CountTokensParameters.model = ''llama3'',
         CountTokensParameters.contents = Some [\<lparr>Content.role = Some ''user'', parts = Some
           [\<lparr>Part.text = Some ''0123456789012345678901234567890123456789'', functionCall = None, functionResponse = None\<rparr>]\<rparr>]\<rparr>", OF refl]
  by (simp add: toContents_def partsToContent_single partsToContent_part_def)


section \<open>Failures\<close>



text \<open>
  Claim C9. \<open>embedContent\<close> rejects on every request, with an \<open>Error\<close> whose message says
  that embedding is not supported and names Ollama, and the list of requests sent is
  what it was: no request goes to the network.
\<close>

theorem embedContent_unsupported:
  "embedContent request sent =
     (Inl (Error ''Embedding is not supported for Ollama backends yet.''), sent)
   \<and> (\<exists>msg. embedContent request sent = (Inl (Error msg), sent)
         \<and> sublist ''not supported'' msg \<and> sublist ''Ollama'' msg)"
proof -
  have a: "sublist ''not supported'' (''Embedding is '' @ ''not supported'' @ '' for Ollama backends yet.'')"
    by (rule sublist_mid)
  have b: "sublist ''Ollama'' (''Embedding is not supported for '' @ ''Ollama'' @ '' backends yet.'')"
    by (rule sublist_mid)
  show ?thesis
    using a b by (simp add: embedContent_def)
qed

end
